theory Spec2Isabelle
  imports Complex_Main
begin

section \<open>The InternetMonitor agent (agent/main.go)\<close>

text \<open>
  The agent is one Go file: a connectivity probe, a guarded asynchronous download-speed
  measurement, a store for the last speed with a rule that suppresses runs of zero rows
  in the history table, a configuration loader and the /status handler.

  Conventions of the embedding.
  \<^item> A \<open>time.Time\<close> is an \<open>int\<close>: nanoseconds counted from Go's zero Time, so the zero
    value of \<open>lastMeasurementTime\<close> is \<open>0\<close>. A \<open>time.Duration\<close> is an \<open>int\<close> of
    nanoseconds; \<open>Time.Sub\<close> saturates at the int64 bounds as the library does.
  \<^item> A \<open>float64\<close> is a \<open>real\<close>: the arithmetic of the program (two divisions, one
    multiplication, comparisons with 0) is read exactly, without rounding.
  \<^item> An \<open>int64\<close> byte count is an \<open>int\<close>, and the one multiplication the program does
    on it wraps around explicitly.
  \<^item> The package-level variables are the fields of the record \<open>agent\<close>, together with
    the rows of the history table. Every function that reads the clock, the network or
    the database gets what it read as an argument.
  \<^item> A section of code that runs under one of the two mutexes is one function, so one
    atomic step. Log lines are not modelled.
\<close>

subsection \<open>Time\<close>

type_synonym time = int
type_synonym duration = int

definition minDuration :: duration where
  "minDuration = - (2 ^ 63)"

definition maxDuration :: duration where
  "maxDuration = 2 ^ 63 - 1"

definition Second :: duration where
  "Second = 1000000000"

text \<open>\<open>t.Sub(u)\<close>: the difference, clamped to the range of a Duration.\<close>

definition Sub :: "time \<Rightarrow> time \<Rightarrow> duration" where
  "Sub t u =
     (let d = t - u
      in if maxDuration < d then maxDuration
         else if d < minDuration then minDuration
         else d)"

text \<open>\<open>time.Since(u)\<close> is \<open>time.Now().Sub(u)\<close>; the clock reading is the first argument.\<close>

definition Since :: "time \<Rightarrow> time \<Rightarrow> duration" where
  "Since now u = Sub now u"

text \<open>Go's integer division and remainder truncate towards zero.\<close>

definition go_div :: "int \<Rightarrow> int \<Rightarrow> int" where
  "go_div a b = sgn a * sgn b * (\<bar>a\<bar> div \<bar>b\<bar>)"

definition go_rem :: "int \<Rightarrow> int \<Rightarrow> int" where
  "go_rem a b = a - b * go_div a b"

text \<open>
  \<open>d.Seconds()\<close>: the library splits the duration into whole seconds and the remaining
  nanoseconds and adds them as floats.
\<close>

definition Seconds :: "duration \<Rightarrow> real" where
  "Seconds d =
     (let sec = go_div d Second; nsec = go_rem d Second
      in real_of_int sec + real_of_int nsec / 1000000000)"

subsection \<open>Data\<close>

definition Version_const :: string where
  "Version_const = ''1.1.0''"

record Status =
  Online :: bool
  LatencyMs :: real
  Timestamp :: time
  DownloadSpeedMbps :: real
  Version :: string

record Config =
  LatencyThresholdMs :: real
  DegradedSpeedMbps :: real

text \<open>A row of the table \<open>history(ts, online, latency, speed, version)\<close>.\<close>

record history_row =
  ts :: time
  online :: bool
  latency :: real
  speed :: real
  version :: string

text \<open>The shared variables of the package, and the history table behind \<open>db\<close>.\<close>

record agent =
  lastSpeed :: real
  lastRecordedSpeed :: real
  measuring :: bool
  lastMeasurementTime :: time
  history :: "history_row list"

definition measurementCooldown :: duration where
  "measurementCooldown = 30 * Second"

text \<open>
  A freshly started process: every package variable has its zero value; the table holds
  whatever rows \<open>h0\<close> earlier runs left in the file.
\<close>

definition initial :: "history_row list \<Rightarrow> agent" where
  "initial h0 =
     \<lparr>lastSpeed = 0, lastRecordedSpeed = 0, measuring = False,
      lastMeasurementTime = 0, history = h0\<rparr>"

subsection \<open>loadConfig\<close>

text \<open>
  The file is represented by what \<open>os.ReadFile\<close> makes of it: an error, or its bytes.
  The bytes are given by the JSON value they denote, \<open>None\<close> when they are not a JSON
  text (the decoder's syntax check fails).
\<close>

datatype json =
    JNull
  | JBool bool
  | JNumber real
  | JString string
  | JArray "json list"
  | JObject "(string \<times> json) list"

datatype config_file = Unreadable | Contents "json option"

text \<open>
  \<open>json.Unmarshal\<close> into a struct of two float64 fields. A key selects the field whose
  tag it equals, or else the one it equals up to the case of its (ASCII) letters; other
  keys are skipped. A number is stored, \<open>null\<close> leaves the field alone, any other value is
  a type error: decoding goes on and the error is returned at the end. At top level
  \<open>null\<close> changes nothing and any value other than an object is a type error.
\<close>

definition lower_ascii :: "char \<Rightarrow> char" where
  "lower_ascii c =
     (let k = (of_char c :: nat)
      in if 65 \<le> k \<and> k \<le> 90 then char_of (k + 32) else c)"

definition equal_fold :: "string \<Rightarrow> string \<Rightarrow> bool" where
  "equal_fold a b = (map lower_ascii a = map lower_ascii b)"

datatype config_field = FLatencyThresholdMs | FDegradedSpeedMbps

definition field_of_key :: "string \<Rightarrow> config_field option" where
  "field_of_key k =
     (if k = ''latencyThresholdMs'' then Some FLatencyThresholdMs
      else if k = ''degradedSpeedMbps'' then Some FDegradedSpeedMbps
      else if equal_fold k ''latencyThresholdMs'' then Some FLatencyThresholdMs
      else if equal_fold k ''degradedSpeedMbps'' then Some FDegradedSpeedMbps
      else None)"

fun decode_float :: "json \<Rightarrow> real \<Rightarrow> real \<times> bool" where
  "decode_float (JNumber x) old = (x, False)"
| "decode_float JNull old = (old, False)"
| "decode_float _ old = (old, True)"

fun decode_members :: "(string \<times> json) list \<Rightarrow> Config \<times> bool \<Rightarrow> Config \<times> bool" where
  "decode_members [] acc = acc"
| "decode_members ((k, v) # kvs) (cfg, err) =
     (case field_of_key k of
        None \<Rightarrow> decode_members kvs (cfg, err)
      | Some FLatencyThresholdMs \<Rightarrow>
          (let (x, e) = decode_float v (LatencyThresholdMs cfg)
           in decode_members kvs (cfg\<lparr>LatencyThresholdMs := x\<rparr>, err \<or> e))
      | Some FDegradedSpeedMbps \<Rightarrow>
          (let (x, e) = decode_float v (DegradedSpeedMbps cfg)
           in decode_members kvs (cfg\<lparr>DegradedSpeedMbps := x\<rparr>, err \<or> e)))"

text \<open>The result is the struct as the decoder left it and whether it returned an error.\<close>

fun Unmarshal :: "json option \<Rightarrow> Config \<Rightarrow> Config \<times> bool" where
  "Unmarshal None cfg = (cfg, True)"
| "Unmarshal (Some JNull) cfg = (cfg, False)"
| "Unmarshal (Some (JObject kvs)) cfg = decode_members kvs (cfg, False)"
| "Unmarshal (Some _) cfg = (cfg, True)"

definition loadConfig :: "config_file \<Rightarrow> Config" where
  "loadConfig file =
     (case file of
        Unreadable \<Rightarrow> \<lparr>LatencyThresholdMs = 150, DegradedSpeedMbps = 10\<rparr>
      | Contents data \<Rightarrow>
          (let (cfg, err) = Unmarshal data \<lparr>LatencyThresholdMs = 0, DegradedSpeedMbps = 0\<rparr>
           in if err then \<lparr>LatencyThresholdMs = 150, DegradedSpeedMbps = 10\<rparr>
              else cfg))"

subsection \<open>checkConnectivity\<close>

datatype dial_error = Timeout | Refused | DNSFailure | OtherDialError

datatype dial_result = DialErr dial_error | Connected

text \<open>
  \<open>start\<close> is the clock at entry, \<open>t_conn\<close> the clock when \<open>time.Since(start)\<close> is taken
  after the dial returned, \<open>t_now\<close> the clock read for the Timestamp field. Fields the
  struct literal leaves out have their zero value.
\<close>

definition checkConnectivity :: "dial_result \<Rightarrow> time \<Rightarrow> time \<Rightarrow> time \<Rightarrow> Status" where
  "checkConnectivity dial start t_conn t_now =
     (case dial of
        DialErr e \<Rightarrow>
          \<lparr>Online = False, LatencyMs = 0, Timestamp = t_now,
           DownloadSpeedMbps = 0, Version = Version_const\<rparr>
      | Connected \<Rightarrow>
          (let latency_ms = Seconds (Since t_conn start) * 1000
           in \<lparr>Online = True, LatencyMs = latency_ms, Timestamp = t_now,
               DownloadSpeedMbps = 0, Version = Version_const\<rparr>))"

subsection \<open>updateLastSpeed\<close>

text \<open>What the two database calls of one insert do: Prepare fails, Exec fails, or the row is in.\<close>

datatype db_outcome = PrepareFails | ExecFails | Inserted

definition updateLastSpeed :: "real \<Rightarrow> time \<Rightarrow> db_outcome \<Rightarrow> agent \<Rightarrow> agent" where
  "updateLastSpeed v now dbo st =
     (let st1 = st\<lparr>lastSpeed := v\<rparr>;
          shouldWrite = (v \<noteq> 0 \<or> lastRecordedSpeed st1 \<noteq> 0);
          st2 = (if shouldWrite then st1\<lparr>lastRecordedSpeed := v\<rparr> else st1)
      in if \<not> shouldWrite then st2
         else (case dbo of
                 PrepareFails \<Rightarrow> st2
               | ExecFails \<Rightarrow> st2
               | Inserted \<Rightarrow>
                   st2\<lparr>history := history st2 @
                     [\<lparr>ts = now, online = True, latency = 0, speed = v,
                       version = Version_const\<rparr>]\<rparr>))"

text \<open>A sequence of updates, each with its speed, the clock at the insert and the database's answer.\<close>

fun updates :: "(real \<times> time \<times> db_outcome) list \<Rightarrow> agent \<Rightarrow> agent" where
  "updates [] st = st"
| "updates ((v, now, dbo) # us) st = updates us (updateLastSpeed v now dbo st)"

subsection \<open>measureDownloadSpeedAsync\<close>

text \<open>
  The part that runs in the caller, under \<open>guardMutex\<close>: the result says whether the
  goroutine was started.
\<close>

definition measureDownloadSpeedAsync :: "time \<Rightarrow> agent \<Rightarrow> agent \<times> bool" where
  "measureDownloadSpeedAsync now st =
     (if measuring st \<or> Since now (lastMeasurementTime st) < measurementCooldown
      then (st, False)
      else (st\<lparr>measuring := True\<rparr>, True))"

text \<open>
  What the download did: \<open>Get\<close> failed; \<open>io.Copy\<close> failed after some bytes; or \<open>n\<close> bytes
  were copied and \<open>time.Since(start)\<close> then gave the duration \<open>d\<close>.
\<close>

datatype download = GetFails | CopyFails int | Copied int duration

definition int64 :: "int \<Rightarrow> int" where
  "int64 x = (x + 2 ^ 63) mod 2 ^ 64 - 2 ^ 63"

definition measurement_body :: "download \<Rightarrow> time \<Rightarrow> db_outcome \<Rightarrow> agent \<Rightarrow> agent" where
  "measurement_body dl t_db dbo st =
     (case dl of
        GetFails \<Rightarrow> updateLastSpeed 0 t_db dbo st
      | CopyFails n \<Rightarrow> updateLastSpeed 0 t_db dbo st
      | Copied n d \<Rightarrow>
          (let dur = Seconds d
           in if dur = 0 then updateLastSpeed 0 t_db dbo st
              else (let mbps = real_of_int (int64 (n * 8)) / dur / 1000000
                    in updateLastSpeed mbps t_db dbo st)))"

text \<open>The deferred function of the goroutine, under \<open>guardMutex\<close>.\<close>

definition deferred_release :: "time \<Rightarrow> agent \<Rightarrow> agent" where
  "deferred_release now st = st\<lparr>measuring := False, lastMeasurementTime := now\<rparr>"

text \<open>The goroutine: the body, then the deferred function, on every return of the body.\<close>

definition goroutine :: "download \<Rightarrow> time \<Rightarrow> db_outcome \<Rightarrow> time \<Rightarrow> agent \<Rightarrow> agent" where
  "goroutine dl t_db dbo t_end st = deferred_release t_end (measurement_body dl t_db dbo st)"

subsection \<open>The /status handler\<close>

text \<open>What one request reads from the network and the clock, in the order it reads it.\<close>

record request =
  dial :: dial_result
  t_start :: time
  t_conn :: time
  t_probe :: time
  t_stamp :: time
  t_gate :: time

text \<open>The result: the status that is encoded as the response, the state, and whether a goroutine was started.\<close>

definition status_handler :: "request \<Rightarrow> agent \<Rightarrow> Status \<times> agent \<times> bool" where
  "status_handler rq st =
     (let status = checkConnectivity (dial rq) (t_start rq) (t_conn rq) (t_probe rq);
          status = status\<lparr>DownloadSpeedMbps := lastSpeed st\<rparr>;
          status = status\<lparr>Timestamp := t_stamp rq\<rparr>;
          status = status\<lparr>Version := Version_const\<rparr>
      in if Online status
         then (let (st', started) = measureDownloadSpeedAsync (t_gate rq) st
               in (status, st', started))
         else (status, st, False))"

subsection \<open>Runs of the agent\<close>

text \<open>
  An event is one atomic step as seen from the shared state: a direct call of
  \<open>measureDownloadSpeedAsync\<close>, a request to /status, or the end of the goroutine in
  flight. The goroutine exists only while \<open>measuring\<close> holds, so its end is a step only
  then; its two locked sections are taken together, since nothing between them touches
  the guard and nothing else writes the speeds. The time of an event is the clock read
  under \<open>guardMutex\<close>. Beside the state, a run keeps the times at which a goroutine was
  started, the newest first.
\<close>

datatype event =
    TryStart time
  | Request request
  | BodyEnds download time db_outcome time

fun event_time :: "event \<Rightarrow> time" where
  "event_time (TryStart t) = t"
| "event_time (Request rq) = t_gate rq"
| "event_time (BodyEnds dl t_db dbo t_end) = t_end"

fun step :: "event \<Rightarrow> agent \<times> time list \<Rightarrow> agent \<times> time list" where
  "step (TryStart t) (st, starts) =
     (let (st', started) = measureDownloadSpeedAsync t st
      in (st', if started then t # starts else starts))"
| "step (Request rq) (st, starts) =
     (let (status, st', started) = status_handler rq st
      in (st', if started then t_gate rq # starts else starts))"
| "step (BodyEnds dl t_db dbo t_end) (st, starts) =
     (if measuring st then (goroutine dl t_db dbo t_end st, starts) else (st, starts))"

fun run :: "event list \<Rightarrow> agent \<times> time list \<Rightarrow> agent \<times> time list" where
  "run [] c = c"
| "run (e # es) c = run es (step e c)"

subsection \<open>Vocabulary of the properties\<close>

text \<open>Start times, newest first, any two of which lie at least the cooldown apart.\<close>

fun spaced :: "time list \<Rightarrow> bool" where
  "spaced [] = True"
| "spaced (t # rest) = ((\<forall>s \<in> set rest. s + measurementCooldown \<le> t) \<and> spaced rest)"

text \<open>The window of one cooldown that opens at \<open>w\<close>.\<close>

definition in_window :: "time \<Rightarrow> time \<Rightarrow> bool" where
  "in_window w t = (w \<le> t \<and> t < w + measurementCooldown)"

text \<open>
  The invariant of a run whose clock has reached \<open>T\<close>: no start lies in the future, every
  start lies before the last release once the guard is free, and the starts are spaced.
\<close>

definition guard_inv :: "time \<Rightarrow> agent \<times> time list \<Rightarrow> bool" where
  "guard_inv T c =
     ((\<forall>s \<in> set (snd c). s \<le> T) \<and>
      (\<not> measuring (fst c) \<longrightarrow> (\<forall>s \<in> set (snd c). s \<le> lastMeasurementTime (fst c))) \<and>
      spaced (snd c))"

section \<open>Properties\<close>

subsection \<open>Time\<close>

lemma Seconds_exact: "Seconds d = real_of_int d / 1000000000"
proof -
  have "real_of_int (go_div d Second) * 1000000000 + real_of_int (go_rem d Second)
        = real_of_int d"
    by (simp add: go_rem_def Second_def)
  then show ?thesis
    by (simp add: Seconds_def Let_def field_simps)
qed

lemma Since_exact:
  "minDuration \<le> now - u \<Longrightarrow> now - u \<le> maxDuration \<Longrightarrow> Since now u = now - u"
  by (simp add: Since_def Sub_def Let_def)

text \<open>The clamping of \<open>Sub\<close> never decides the gate: the cooldown lies inside the range.\<close>

lemma Since_lt_cooldown:
  "(Since now u < measurementCooldown) = (now - u < measurementCooldown)"
  by (simp add: Since_def Sub_def Let_def measurementCooldown_def Second_def
      minDuration_def maxDuration_def)

lemma int64_id: "0 \<le> x \<Longrightarrow> x < 2 ^ 63 \<Longrightarrow> int64 x = x"
  by (simp add: int64_def)

subsection \<open>What one call of updateLastSpeed changes\<close>

lemma updateLastSpeed_lastSpeed: "lastSpeed (updateLastSpeed v now dbo st) = v"
  by (simp add: updateLastSpeed_def Let_def split: db_outcome.split)

lemma updateLastSpeed_guard:
  "measuring (updateLastSpeed v now dbo st) = measuring st"
  "lastMeasurementTime (updateLastSpeed v now dbo st) = lastMeasurementTime st"
  by (simp_all add: updateLastSpeed_def Let_def split: db_outcome.split)

lemma updateLastSpeed_lastRecordedSpeed:
  "lastRecordedSpeed (updateLastSpeed v now dbo st) =
     (if v \<noteq> 0 \<or> lastRecordedSpeed st \<noteq> 0 then v else lastRecordedSpeed st)"
  by (simp add: updateLastSpeed_def Let_def split: db_outcome.split)

lemma updateLastSpeed_history:
  "history (updateLastSpeed v now dbo st) =
     history st @
       (if (v \<noteq> 0 \<or> lastRecordedSpeed st \<noteq> 0) \<and> dbo = Inserted
        then [\<lparr>ts = now, online = True, latency = 0, speed = v, version = Version_const\<rparr>]
        else [])"
  by (simp add: updateLastSpeed_def Let_def split: db_outcome.split)

lemma status_handler_speed:
  "DownloadSpeedMbps (fst (status_handler rq st)) = lastSpeed st"
  by (simp add: status_handler_def Let_def split: prod.split)

lemma body_speed:
  "measurement_body dl t_db dbo st =
     updateLastSpeed
       (case dl of
          GetFails \<Rightarrow> 0
        | CopyFails n \<Rightarrow> 0
        | Copied n d \<Rightarrow>
            if d = 0 then 0 else real_of_int (int64 (n * 8)) / Seconds d / 1000000)
       t_db dbo st"
  by (simp add: measurement_body_def Let_def Seconds_exact split: download.split)

subsection \<open>The gate\<close>

lemma step_Request:
  "step (Request rq) c =
     (if dial rq = Connected then step (TryStart (t_gate rq)) c else c)"
  by (cases c; cases "dial rq")
     (simp_all add: status_handler_def checkConnectivity_def Let_def split: prod.split)

lemma guard_inv_mono: "guard_inv T c \<Longrightarrow> T \<le> t \<Longrightarrow> guard_inv t c"
  by (force simp: guard_inv_def)

lemma guard_inv_TryStart:
  assumes "guard_inv T c" "T \<le> t"
  shows "guard_inv t (step (TryStart t) c)"
proof (cases c)
  case (Pair st starts)
  show ?thesis
  proof (cases "measuring st \<or> Since t (lastMeasurementTime st) < measurementCooldown")
    case True
    then have "step (TryStart t) c = c"
      using Pair by (simp add: measureDownloadSpeedAsync_def)
    with assms show ?thesis
      by (simp add: guard_inv_mono)
  next
    case False
    then have st: "step (TryStart t) c = (st\<lparr>measuring := True\<rparr>, t # starts)"
      using Pair by (simp add: measureDownloadSpeedAsync_def)
    from False have "lastMeasurementTime st + measurementCooldown \<le> t"
      by (simp add: Since_lt_cooldown)
    moreover from False assms Pair have "\<forall>s \<in> set starts. s \<le> lastMeasurementTime st"
      by (simp add: guard_inv_def)
    ultimately have gap: "\<forall>s \<in> set starts. s + measurementCooldown \<le> t"
      by fastforce
    have "0 \<le> measurementCooldown"
      by (simp add: measurementCooldown_def Second_def)
    with gap have le: "\<forall>s \<in> set starts. s \<le> t"
      by fastforce
    have "spaced starts"
      using assms Pair by (simp add: guard_inv_def)
    with gap le show ?thesis
      by (simp add: st guard_inv_def)
  qed
qed

lemma guard_inv_step:
  assumes "guard_inv T c" "T \<le> event_time e"
  shows "guard_inv (event_time e) (step e c)"
proof (cases e)
  case (TryStart t)
  with assms show ?thesis by (simp add: guard_inv_TryStart)
next
  case (Request rq)
  with assms show ?thesis
    by (simp add: step_Request guard_inv_TryStart guard_inv_mono del: step.simps)
next
  case (BodyEnds dl t_db dbo t_end)
  show ?thesis
  proof (cases c)
    case (Pair st starts)
    with assms BodyEnds show ?thesis
      by (force simp: guard_inv_def goroutine_def deferred_release_def)
  qed
qed

lemma guard_inv_run:
  "guard_inv T c \<Longrightarrow> sorted (map event_time es) \<Longrightarrow> \<forall>e \<in> set es. T \<le> event_time e
   \<Longrightarrow> \<exists>T'. guard_inv T' (run es c)"
proof (induction es arbitrary: T c)
  case Nil
  then show ?case by auto
next
  case (Cons e es)
  have "guard_inv (event_time e) (step e c)"
    using Cons.prems by (simp add: guard_inv_step)
  moreover have "sorted (map event_time es)" "\<forall>x \<in> set es. event_time e \<le> event_time x"
    using Cons.prems by simp_all
  ultimately show ?case
    using Cons.IH by simp
qed

lemma run_spaced:
  assumes "sorted (map event_time es)"
  shows "spaced (snd (run es (st, [])))"
proof (cases es)
  case Nil
  then show ?thesis by simp
next
  case (Cons e es')
  have "guard_inv (event_time e) (st, [])"
    by (simp add: guard_inv_def)
  moreover have "\<forall>x \<in> set es. event_time e \<le> event_time x"
    using assms Cons by auto
  ultimately obtain T' where "guard_inv T' (run es (st, []))"
    using assms guard_inv_run by blast
  then show ?thesis by (simp add: guard_inv_def)
qed

lemma spaced_window: "spaced starts \<Longrightarrow> length (filter (in_window w) starts) \<le> 1"
proof (induction starts)
  case Nil
  then show ?case by simp
next
  case (Cons t rest)
  show ?case
  proof (cases "in_window w t")
    case True
    with Cons.prems have "\<forall>s \<in> set rest. \<not> in_window w s"
      by (fastforce simp: in_window_def)
    then have "filter (in_window w) rest = []"
      by (simp add: filter_empty_conv)
    with True show ?thesis by simp
  next
    case False
    with Cons show ?thesis by simp
  qed
qed

text \<open>
  C1. A call of \<open>measureDownloadSpeedAsync\<close> that finds a measurement in flight, or less
  than the cooldown since the last release, returns the whole state as it was and starts
  nothing. Hence in any run whose events come in the order of the clock (calls, requests
  to /status and ends of the goroutine, from any state), at most one goroutine is started
  within any window of one cooldown, whatever the number of calls. The scenario: in a
  fresh process a first call at \<open>t\<close> starts the measurement, and a call one second later
  is rejected with the state unchanged, whether the measurement is still in flight or
  has ended in between.
\<close>

theorem single_flight_cooldown_gate:
  "((measuring st \<or> Since now (lastMeasurementTime st) < measurementCooldown) \<longrightarrow>
      measureDownloadSpeedAsync now st = (st, False))
   \<and> (sorted (map event_time es) \<longrightarrow>
        length (filter (in_window w) (snd (run es (st0, [])))) \<le> 1)
   \<and> (measurementCooldown \<le> t \<and> t \<le> t_end \<longrightarrow>
        measureDownloadSpeedAsync t (initial h0) = ((initial h0)\<lparr>measuring := True\<rparr>, True) \<and>
        measureDownloadSpeedAsync (t + Second) ((initial h0)\<lparr>measuring := True\<rparr>)
          = ((initial h0)\<lparr>measuring := True\<rparr>, False) \<and>
        measureDownloadSpeedAsync (t + Second)
            (deferred_release t_end ((initial h0)\<lparr>measuring := True\<rparr>))
          = (deferred_release t_end ((initial h0)\<lparr>measuring := True\<rparr>), False))"
proof (intro conjI impI)
  assume "measuring st \<or> Since now (lastMeasurementTime st) < measurementCooldown"
  then show "measureDownloadSpeedAsync now st = (st, False)"
    by (simp add: measureDownloadSpeedAsync_def)
next
  assume "sorted (map event_time es)"
  then have "spaced (snd (run es (st0, [])))"
    by (rule run_spaced)
  then show "length (filter (in_window w) (snd (run es (st0, [])))) \<le> 1"
    by (rule spaced_window)
next
  assume "measurementCooldown \<le> t \<and> t \<le> t_end"
  then show "measureDownloadSpeedAsync t (initial h0) = ((initial h0)\<lparr>measuring := True\<rparr>, True)"
    by (simp add: measureDownloadSpeedAsync_def Since_lt_cooldown initial_def)
next
  show "measureDownloadSpeedAsync (t + Second) ((initial h0)\<lparr>measuring := True\<rparr>)
          = ((initial h0)\<lparr>measuring := True\<rparr>, False)"
    by (simp add: measureDownloadSpeedAsync_def)
next
  assume "measurementCooldown \<le> t \<and> t \<le> t_end"
  then have "t + Second - t_end < measurementCooldown"
    by (simp add: measurementCooldown_def Second_def)
  then show "measureDownloadSpeedAsync (t + Second)
            (deferred_release t_end ((initial h0)\<lparr>measuring := True\<rparr>))
          = (deferred_release t_end ((initial h0)\<lparr>measuring := True\<rparr>), False)"
    by (simp add: measureDownloadSpeedAsync_def Since_lt_cooldown deferred_release_def)
qed

text \<open>
  A run of five events in a fresh process: a call at 100 s starts a measurement, a call
  at 101 s is rejected, the measurement ends at 102 s, a call at 120 s is rejected, a call
  at 140 s starts the second measurement.
\<close>

theorem single_flight_cooldown_gate_witness:
  "(measuring ((initial [])\<lparr>measuring := True\<rparr>) \<or>
      Since 5 (lastMeasurementTime ((initial [])\<lparr>measuring := True\<rparr>)) < measurementCooldown)
   \<and> measureDownloadSpeedAsync 5 ((initial [])\<lparr>measuring := True\<rparr>)
        = ((initial [])\<lparr>measuring := True\<rparr>, False)
   \<and> sorted (map event_time
        [TryStart 100000000000, TryStart 101000000000,
         BodyEnds (Copied 5000000 Second) 102000000000 Inserted 102000000000,
         TryStart 120000000000, TryStart 140000000000])
   \<and> snd (run [TryStart 100000000000, TryStart 101000000000,
         BodyEnds (Copied 5000000 Second) 102000000000 Inserted 102000000000,
         TryStart 120000000000, TryStart 140000000000] (initial [], []))
       = [140000000000, 100000000000]
   \<and> length (filter (in_window 100000000000)
        (snd (run [TryStart 100000000000, TryStart 101000000000,
         BodyEnds (Copied 5000000 Second) 102000000000 Inserted 102000000000,
         TryStart 120000000000, TryStart 140000000000] (initial [], [])))) \<le> 1
   \<and> measurementCooldown \<le> 100000000000 \<and> (100000000000::int) \<le> 102000000000
   \<and> measureDownloadSpeedAsync 100000000000 (initial [])
        = ((initial [])\<lparr>measuring := True\<rparr>, True)
   \<and> measureDownloadSpeedAsync (100000000000 + Second)
            (deferred_release 102000000000 ((initial [])\<lparr>measuring := True\<rparr>))
          = (deferred_release 102000000000 ((initial [])\<lparr>measuring := True\<rparr>), False)"
  using single_flight_cooldown_gate [of "(initial [])\<lparr>measuring := True\<rparr>" 5
      "[TryStart 100000000000, TryStart 101000000000,
         BodyEnds (Copied 5000000 Second) 102000000000 Inserted 102000000000,
         TryStart 120000000000, TryStart 140000000000]" 100000000000 "initial []"
      100000000000 102000000000 "[]"]
  by (simp add: initial_def measureDownloadSpeedAsync_def Since_def Sub_def Let_def
     measurementCooldown_def Second_def maxDuration_def minDuration_def goroutine_def
     deferred_release_def measurement_body_def updateLastSpeed_def Seconds_exact int64_def
     Version_const_def in_window_def)

subsection \<open>The rule against runs of zero rows\<close>

text \<open>
  C2. In a fresh process whose inserts succeed, the updates 5, 0, 0, 0, 7 add exactly
  three rows to the table: for 5, for the first 0 and for 7. In any state, an update whose
  insert succeeds adds its row if and only if the speed or \<open>lastRecordedSpeed\<close> is not
  0, and an update that passes this test sets \<open>lastRecordedSpeed\<close> to its speed, while
  one that does not leaves it alone.
\<close>

theorem dedup_zero_rows:
  "history (updates [(5, t1, Inserted), (0, t2, Inserted), (0, t3, Inserted),
                     (0, t4, Inserted), (7, t5, Inserted)] (initial h0))
     = h0 @ [\<lparr>ts = t1, online = True, latency = 0, speed = 5, version = Version_const\<rparr>,
             \<lparr>ts = t2, online = True, latency = 0, speed = 0, version = Version_const\<rparr>,
             \<lparr>ts = t5, online = True, latency = 0, speed = 7, version = Version_const\<rparr>]
   \<and> history (updateLastSpeed v now Inserted st) =
       (if v \<noteq> 0 \<or> lastRecordedSpeed st \<noteq> 0
        then history st @
          [\<lparr>ts = now, online = True, latency = 0, speed = v, version = Version_const\<rparr>]
        else history st)
   \<and> lastRecordedSpeed (updateLastSpeed v now dbo st) =
       (if v \<noteq> 0 \<or> lastRecordedSpeed st \<noteq> 0 then v else lastRecordedSpeed st)"
  by (simp add: updateLastSpeed_history updateLastSpeed_lastRecordedSpeed initial_def)

theorem dedup_zero_rows_witness:
  "history (updates [(5, 1, Inserted), (0, 2, Inserted), (0, 3, Inserted),
                     (0, 4, Inserted), (7, 5, Inserted)] (initial []))
     = [\<lparr>ts = 1, online = True, latency = 0, speed = 5, version = Version_const\<rparr>,
        \<lparr>ts = 2, online = True, latency = 0, speed = 0, version = Version_const\<rparr>,
        \<lparr>ts = 5, online = True, latency = 0, speed = 7, version = Version_const\<rparr>]
   \<and> history (updateLastSpeed 3 6 Inserted (initial []))
       = [\<lparr>ts = 6, online = True, latency = 0, speed = 3, version = Version_const\<rparr>]
   \<and> lastRecordedSpeed (updateLastSpeed 3 6 ExecFails (initial [])) = 3"
  using dedup_zero_rows [of 1 2 3 4 5 "[]" 3 6 "initial []" ExecFails]
  by (simp add: initial_def)

subsection \<open>The goroutine\<close>

text \<open>
  C3. Whatever the download did (the request failed, the copy failed, nothing was
  measurable in a zero duration, or bytes were counted), the goroutine is one call of
  \<open>updateLastSpeed\<close> with the measured speed, 0 in the first three cases, followed by the
  deferred release; after it \<open>measuring\<close> is false and \<open>lastMeasurementTime\<close> is the
  clock at the release.
\<close>

theorem goroutine_always_releases:
  "goroutine dl t_db dbo t_end st =
     deferred_release t_end
       (updateLastSpeed
          (case dl of
             GetFails \<Rightarrow> 0
           | CopyFails n \<Rightarrow> 0
           | Copied n d \<Rightarrow>
               if d = 0 then 0 else real_of_int (int64 (n * 8)) / Seconds d / 1000000)
          t_db dbo st)
   \<and> measuring (goroutine dl t_db dbo t_end st) = False
   \<and> lastMeasurementTime (goroutine dl t_db dbo t_end st) = t_end"
  by (simp add: goroutine_def body_speed deferred_release_def)

theorem goroutine_always_releases_witness:
  "goroutine GetFails 7 PrepareFails 9 ((initial [])\<lparr>measuring := True\<rparr>) =
     deferred_release 9 (updateLastSpeed 0 7 PrepareFails ((initial [])\<lparr>measuring := True\<rparr>))
   \<and> measuring (goroutine GetFails 7 PrepareFails 9 ((initial [])\<lparr>measuring := True\<rparr>)) = False
   \<and> lastMeasurementTime (goroutine GetFails 7 PrepareFails 9 ((initial [])\<lparr>measuring := True\<rparr>)) = 9"
  using goroutine_always_releases [of GetFails 7 PrepareFails 9 "(initial [])\<lparr>measuring := True\<rparr>"]
  by (simp add: deferred_release_def)

subsection \<open>lastRecordedSpeed and the table\<close>

text \<open>
  C4, as the claim states it, fails: \<open>lastRecordedSpeed\<close> is assigned under the lock,
  before the insert is tried, and is not taken back when the insert fails. In a fresh
  process with an empty table, an update with speed 5 whose \<open>Exec\<close> fails leaves the
  table empty and \<open>lastRecordedSpeed\<close> at 5.
\<close>

theorem lastRecordedSpeed_set_on_failed_insert:
  "lastRecordedSpeed (initial []) = 0 \<and>
   lastRecordedSpeed (updateLastSpeed 5 1 ExecFails (initial [])) = 5 \<and>
   history (updateLastSpeed 5 1 ExecFails (initial [])) = []"
  by (simp add: updateLastSpeed_history updateLastSpeed_lastRecordedSpeed initial_def)

lemma updates_Inserted_inv:
  "list_all (\<lambda>u. snd (snd u) = Inserted) us \<Longrightarrow>
   history st = h0 @ new \<Longrightarrow>
   lastRecordedSpeed st = (if new = [] then 0 else speed (last new)) \<Longrightarrow>
   \<exists>new'. history (updates us st) = h0 @ new' \<and>
     lastRecordedSpeed (updates us st) = (if new' = [] then 0 else speed (last new'))"
proof (induction us arbitrary: st new)
  case Nil
  then show ?case by auto
next
  case (Cons u us)
  obtain v now dbo where u: "u = (v, now, dbo)"
    by (cases u) auto
  with Cons.prems have dbo: "dbo = Inserted" and rest: "list_all (\<lambda>u. snd (snd u) = Inserted) us"
    by simp_all
  let ?st = "updateLastSpeed v now Inserted st"
  let ?new = "new @ (if v \<noteq> 0 \<or> lastRecordedSpeed st \<noteq> 0
        then [\<lparr>ts = now, online = True, latency = 0, speed = v, version = Version_const\<rparr>]
        else [])"
  have h: "history ?st = h0 @ ?new"
    using Cons.prems(2) by (simp add: updateLastSpeed_history)
  have l: "lastRecordedSpeed ?st = (if ?new = [] then 0 else speed (last ?new))"
    using Cons.prems(3) by (simp add: updateLastSpeed_lastRecordedSpeed)
  from Cons.IH [OF rest h l] show ?case
    by (simp add: u dbo)
qed

text \<open>
  C4, amended. After any sequence of updates in a fresh process in which every insert
  succeeds, \<open>lastRecordedSpeed\<close> is the speed of the last row this process has added to
  the table, and 0 if it has added none. In general, whether or not the insert succeeds,
  \<open>lastRecordedSpeed\<close> is the speed of the last update that passed the rule (speed or
  \<open>lastRecordedSpeed\<close> not 0): such an update sets it, any other leaves it.
\<close>

theorem lastRecordedSpeed_tracks_forwarded:
  "(list_all (\<lambda>u. snd (snd u) = Inserted) us \<longrightarrow>
      (\<exists>new. history (updates us (initial h0)) = h0 @ new \<and>
         lastRecordedSpeed (updates us (initial h0)) = (if new = [] then 0 else speed (last new))))
   \<and> lastRecordedSpeed (updateLastSpeed v now dbo st) =
       (if v \<noteq> 0 \<or> lastRecordedSpeed st \<noteq> 0 then v else lastRecordedSpeed st)"
proof (intro conjI impI)
  assume "list_all (\<lambda>u. snd (snd u) = Inserted) us"
  moreover have "history (initial h0) = h0 @ []"
    by (simp add: initial_def)
  moreover have "lastRecordedSpeed (initial h0)
      = (if ([]::history_row list) = [] then 0 else speed (last []))"
    by (simp add: initial_def)
  ultimately show "\<exists>new. history (updates us (initial h0)) = h0 @ new \<and>
         lastRecordedSpeed (updates us (initial h0)) = (if new = [] then 0 else speed (last new))"
    by (rule updates_Inserted_inv)
next
  show "lastRecordedSpeed (updateLastSpeed v now dbo st) =
       (if v \<noteq> 0 \<or> lastRecordedSpeed st \<noteq> 0 then v else lastRecordedSpeed st)"
    by (rule updateLastSpeed_lastRecordedSpeed)
qed

theorem lastRecordedSpeed_tracks_forwarded_witness:
  "list_all (\<lambda>u. snd (snd u) = Inserted) [(5, 1, Inserted), (0, 2, Inserted), (0, 3, Inserted)]
   \<and> (\<exists>new. history (updates [(5, 1, Inserted), (0, 2, Inserted), (0, 3, Inserted)] (initial []))
          = [] @ new \<and>
         lastRecordedSpeed (updates [(5, 1, Inserted), (0, 2, Inserted), (0, 3, Inserted)] (initial []))
           = (if new = [] then 0 else speed (last new)))
   \<and> lastRecordedSpeed (updateLastSpeed 5 1 PrepareFails (initial [])) = 5"
  using lastRecordedSpeed_tracks_forwarded
    [of "[(5, 1, Inserted), (0, 2, Inserted), (0, 3, Inserted)]" "[]" 5 1 PrepareFails "initial []"]
  by (simp add: initial_def)

subsection \<open>loadConfig\<close>

text \<open>The two paths on which the code does fall back: no file, and a file the decoder rejects.\<close>

lemma loadConfig_defaults:
  "loadConfig Unreadable = \<lparr>LatencyThresholdMs = 150, DegradedSpeedMbps = 10\<rparr>"
  "loadConfig (Contents None) = \<lparr>LatencyThresholdMs = 150, DegradedSpeedMbps = 10\<rparr>"
  "loadConfig (Contents (Some (JObject [(''latencyThresholdMs'', JString ''fast'')])))
     = \<lparr>LatencyThresholdMs = 150, DegradedSpeedMbps = 10\<rparr>"
  by (simp_all add: loadConfig_def field_of_key_def)

text \<open>
  C5. The claim wants the defaults 150 and 10 also for a file that parses but holds
  neither setting. The code decodes into a zero-valued struct and returns it whenever the
  decoder reports no error, so for the file \<open>{}\<close> it returns 0 and 0.
\<close>

theorem loadConfig_missing_keys_zero:
  "loadConfig (Contents (Some (JObject []))) = \<lparr>LatencyThresholdMs = 0, DegradedSpeedMbps = 0\<rparr>"
  by (simp add: loadConfig_def)

subsection \<open>checkConnectivity\<close>

text \<open>
  C6. Whatever the error of the dial (timeout, refusal, failed resolution or any other),
  the result is the one status with \<open>Online\<close> false, \<open>LatencyMs\<close> 0 and the clock as
  Timestamp. After a successful dial \<open>Online\<close> is true, Timestamp is the clock, and
  \<open>LatencyMs\<close> is the duration since the start in milliseconds; that duration is the
  elapsed time itself when it fits a Duration. The function returns a status on every
  path.
\<close>

theorem checkConnectivity_outcomes:
  "checkConnectivity (DialErr e) start t_c t_n =
     \<lparr>Online = False, LatencyMs = 0, Timestamp = t_n, DownloadSpeedMbps = 0,
      Version = Version_const\<rparr>
   \<and> Online (checkConnectivity Connected start t_c t_n) = True
   \<and> LatencyMs (checkConnectivity Connected start t_c t_n) = real_of_int (Since t_c start) / 1000000
   \<and> Timestamp (checkConnectivity Connected start t_c t_n) = t_n
   \<and> (0 \<le> t_c - start \<and> t_c - start \<le> maxDuration \<longrightarrow>
        LatencyMs (checkConnectivity Connected start t_c t_n) = real_of_int (t_c - start) / 1000000)"
  by (simp add: checkConnectivity_def Let_def Seconds_exact Since_def Sub_def minDuration_def)

text \<open>A dial that connects after 25 ms, and one that is refused.\<close>

theorem checkConnectivity_outcomes_witness:
  "(0::int) \<le> 1025000000 - 1000000000 \<and> 1025000000 - 1000000000 \<le> maxDuration
   \<and> LatencyMs (checkConnectivity Connected 1000000000 1025000000 1025000100) = 25
   \<and> Online (checkConnectivity Connected 1000000000 1025000000 1025000100) = True
   \<and> checkConnectivity (DialErr Refused) 1000000000 1025000000 1025000100 =
       \<lparr>Online = False, LatencyMs = 0, Timestamp = 1025000100, DownloadSpeedMbps = 0,
        Version = Version_const\<rparr>"
  using checkConnectivity_outcomes [of Refused 1000000000 1025000000 1025000100]
  by (simp add: maxDuration_def)

subsection \<open>Failed measurements\<close>

text \<open>
  C7. When the request fails, the copy fails, or the measured duration is zero, the body
  is the call \<open>updateLastSpeed 0\<close>: the goroutine returns no error, \<open>lastSpeed\<close> is 0
  after it, and the status of a following request is the status of the probe with the
  speed 0 in it, with no trace of the failure.
\<close>

theorem failed_measurement_records_zero:
  "dl \<in> {GetFails, CopyFails n, Copied n 0} \<longrightarrow>
      measurement_body dl t_db dbo st = updateLastSpeed 0 t_db dbo st \<and>
      lastSpeed (goroutine dl t_db dbo t_end st) = 0 \<and>
      fst (status_handler rq (goroutine dl t_db dbo t_end st)) =
        (checkConnectivity (dial rq) (t_start rq) (t_conn rq) (t_probe rq))
          \<lparr>DownloadSpeedMbps := 0, Timestamp := t_stamp rq\<rparr>"
  by (auto simp add: goroutine_def measurement_body_def deferred_release_def Let_def Seconds_exact
       updateLastSpeed_lastSpeed status_handler_def checkConnectivity_def
       split: prod.split dial_result.split)

theorem failed_measurement_records_zero_witness:
  "CopyFails 1200 \<in> {GetFails, CopyFails 1200, Copied 1200 0}
   \<and> lastSpeed (goroutine (CopyFails 1200) 7 Inserted 9
        ((initial [])\<lparr>lastSpeed := 40, lastRecordedSpeed := 40, measuring := True\<rparr>)) = 0
   \<and> DownloadSpeedMbps (fst (status_handler
        \<lparr>dial = Connected, t_start = 10, t_conn = 11, t_probe = 12, t_stamp = 13, t_gate = 14\<rparr>
        (goroutine (CopyFails 1200) 7 Inserted 9
          ((initial [])\<lparr>lastSpeed := 40, lastRecordedSpeed := 40, measuring := True\<rparr>)))) = 0"
  using failed_measurement_records_zero [of "CopyFails 1200" 1200 7 Inserted
      "(initial [])\<lparr>lastSpeed := 40, lastRecordedSpeed := 40, measuring := True\<rparr>" 9
      "\<lparr>dial = Connected, t_start = 10, t_conn = 11, t_probe = 12, t_stamp = 13, t_gate = 14\<rparr>"]
  by simp

subsection \<open>The measured speed\<close>

text \<open>
  C8. After a download of \<open>n\<close> bytes in a duration \<open>d\<close> other than 0, the speed stored
  is the int64 product \<open>n * 8\<close> divided by the seconds of \<open>d\<close> and by 1000000. For every
  count whose bits fit an int64 (\<open>n\<close> below \<open>2 ^ 60\<close>) and every positive duration this
  is \<open>n * 8 / seconds / 1000000\<close>; 5000000 bytes in one second give exactly 40.
\<close>

theorem measured_speed_formula:
  "(d \<noteq> 0 \<longrightarrow> lastSpeed (goroutine (Copied n d) t_db dbo t_end st)
       = real_of_int (int64 (n * 8)) / Seconds d / 1000000)
   \<and> (0 \<le> n \<and> n < 2 ^ 60 \<and> 0 < d \<longrightarrow>
        lastSpeed (goroutine (Copied n d) t_db dbo t_end st)
          = real_of_int n * 8 / (real_of_int d / 1000000000) / 1000000)
   \<and> lastSpeed (goroutine (Copied 5000000 Second) t_db dbo t_end st) = 40"
proof (intro conjI impI)
  assume "d \<noteq> 0"
  then show "lastSpeed (goroutine (Copied n d) t_db dbo t_end st)
       = real_of_int (int64 (n * 8)) / Seconds d / 1000000"
    by (simp add: goroutine_def measurement_body_def deferred_release_def Let_def Seconds_exact
        updateLastSpeed_lastSpeed)
next
  assume a: "0 \<le> n \<and> n < 2 ^ 60 \<and> 0 < d"
  then have "int64 (n * 8) = n * 8"
    by (intro int64_id) simp_all
  with a show "lastSpeed (goroutine (Copied n d) t_db dbo t_end st)
          = real_of_int n * 8 / (real_of_int d / 1000000000) / 1000000"
    by (simp add: goroutine_def measurement_body_def deferred_release_def Let_def Seconds_exact
        updateLastSpeed_lastSpeed)
next
  show "lastSpeed (goroutine (Copied 5000000 Second) t_db dbo t_end st) = 40"
    by (simp add: goroutine_def measurement_body_def deferred_release_def Let_def Seconds_exact
        updateLastSpeed_lastSpeed int64_def Second_def)
qed

text \<open>2500000 bytes in half a second: 40 as well.\<close>

theorem measured_speed_formula_witness:
  "(500000000::int) \<noteq> 0 \<and> (0::int) \<le> 2500000 \<and> (2500000::int) < 2 ^ 60 \<and> (0::int) < 500000000
   \<and> lastSpeed (goroutine (Copied 2500000 500000000) 7 Inserted 9 (initial [])) = 40
   \<and> lastSpeed (goroutine (Copied 5000000 Second) 7 Inserted 9 (initial [])) = 40"
  using measured_speed_formula [of 500000000 2500000 7 Inserted 9 "initial []"]
  by simp

subsection \<open>Writing and reading the last speed\<close>

text \<open>
  C9. After \<open>updateLastSpeed\<close> with speed \<open>S\<close>, for every \<open>S\<close> and so for every
  \<open>S\<close> from 0 on, \<open>lastSpeed\<close> is \<open>S\<close> and the status a following request answers
  carries \<open>S\<close> as its download speed, whether the update was written to the table,
  failed to be written, or was suppressed.
\<close>

theorem updateLastSpeed_roundtrip:
  "lastSpeed (updateLastSpeed S now dbo st) = S \<and>
   DownloadSpeedMbps (fst (status_handler rq (updateLastSpeed S now dbo st))) = S"
  by (simp add: updateLastSpeed_lastSpeed status_handler_speed)

text \<open>A zero after a zero: no row is written, and the speed read back is the zero just stored.\<close>

theorem updateLastSpeed_roundtrip_witness:
  "lastSpeed (updateLastSpeed 0 7 Inserted ((initial [])\<lparr>lastSpeed := 12\<rparr>)) = 0
   \<and> history (updateLastSpeed 0 7 Inserted ((initial [])\<lparr>lastSpeed := 12\<rparr>)) = []
   \<and> DownloadSpeedMbps (fst (status_handler
        \<lparr>dial = Connected, t_start = 10, t_conn = 11, t_probe = 12, t_stamp = 13, t_gate = 14\<rparr>
        (updateLastSpeed 0 7 Inserted ((initial [])\<lparr>lastSpeed := 12\<rparr>)))) = 0"
  using updateLastSpeed_roundtrip [of 0 7 Inserted "(initial [])\<lparr>lastSpeed := 12\<rparr>"
      "\<lparr>dial = Connected, t_start = 10, t_conn = 11, t_probe = 12, t_stamp = 13, t_gate = 14\<rparr>"]
  by (simp add: updateLastSpeed_history initial_def)

subsection \<open>The rows of the table\<close>

lemma step_history:
  "\<exists>new. history (fst (step e c)) = history (fst c) @ new \<and>
     (\<forall>r \<in> set new. online r = True \<and> latency r = 0 \<and> version r = Version_const)"
proof (cases c)
  case (Pair st starts)
  show ?thesis
  proof (cases e)
    case (TryStart t)
    with Pair show ?thesis
      by (simp add: measureDownloadSpeedAsync_def)
  next
    case (Request rq)
    with Pair show ?thesis
      by (simp add: step_Request measureDownloadSpeedAsync_def del: step.simps)
        (simp add: measureDownloadSpeedAsync_def)
  next
    case (BodyEnds dl t_db dbo t_end)
    with Pair show ?thesis
      by (simp add: goroutine_def body_speed deferred_release_def updateLastSpeed_history)
  qed
qed

lemma run_history:
  "\<exists>new. history (fst (run es c)) = history (fst c) @ new \<and>
     (\<forall>r \<in> set new. online r = True \<and> latency r = 0 \<and> version r = Version_const)"
proof (induction es arbitrary: c)
  case Nil
  then show ?case by simp
next
  case (Cons e es)
  obtain n1 where n1: "history (fst (step e c)) = history (fst c) @ n1"
      "\<forall>r \<in> set n1. online r = True \<and> latency r = 0 \<and> version r = Version_const"
    using step_history by blast
  obtain n2 where n2: "history (fst (run es (step e c))) = history (fst (step e c)) @ n2"
      "\<forall>r \<in> set n2. online r = True \<and> latency r = 0 \<and> version r = Version_const"
    using Cons.IH by blast
  have "history (fst (run (e # es) c)) = history (fst c) @ (n1 @ n2)"
    using n1 n2 by simp
  moreover have "\<forall>r \<in> set (n1 @ n2). online r = True \<and> latency r = 0 \<and> version r = Version_const"
    using n1 n2 by auto
  ultimately show ?case by blast
qed

text \<open>
  C10. Every row a run of the agent adds to the table has \<open>online\<close> true and \<open>latency\<close>
  0 (and the version of the build), whatever the probes of the requests in the run
  found; the row one update inserts takes only its timestamp and its speed from the call.
\<close>

theorem history_rows_constant_fields:
  "(\<exists>new. history (fst (run es c)) = history (fst c) @ new \<and>
      (\<forall>r \<in> set new. online r = True \<and> latency r = 0 \<and> version r = Version_const))
   \<and> history (updateLastSpeed v now dbo st) =
       history st @
         (if (v \<noteq> 0 \<or> lastRecordedSpeed st \<noteq> 0) \<and> dbo = Inserted
          then [\<lparr>ts = now, online = True, latency = 0, speed = v, version = Version_const\<rparr>]
          else [])"
  using run_history updateLastSpeed_history by blast

text \<open>
  A request whose probe connects after 25 ms starts a measurement; the row of that
  measurement has latency 0.
\<close>

theorem history_rows_constant_fields_witness:
  "history (fst (run
      [Request \<lparr>dial = Connected, t_start = 100000000000, t_conn = 100025000000,
                t_probe = 100025000001, t_stamp = 100025000002, t_gate = 100025000003\<rparr>,
       BodyEnds (Copied 5000000 Second) 101100000000 Inserted 101100000001]
      (initial [], [])))
     = [\<lparr>ts = 101100000000, online = True, latency = 0, speed = 40, version = Version_const\<rparr>]
   \<and> (\<exists>new. history (fst (run
      [Request \<lparr>dial = Connected, t_start = 100000000000, t_conn = 100025000000,
                t_probe = 100025000001, t_stamp = 100025000002, t_gate = 100025000003\<rparr>,
       BodyEnds (Copied 5000000 Second) 101100000000 Inserted 101100000001]
      (initial [], []))) = history (fst (initial [], [])) @ new \<and>
      (\<forall>r \<in> set new. online r = True \<and> latency r = 0 \<and> version r = Version_const))
   \<and> history (updateLastSpeed 40 101100000000 Inserted (initial []))
     = [\<lparr>ts = 101100000000, online = True, latency = 0, speed = 40, version = Version_const\<rparr>]"
  using history_rows_constant_fields [of
      "[Request \<lparr>dial = Connected, t_start = 100000000000, t_conn = 100025000000,
                t_probe = 100025000001, t_stamp = 100025000002, t_gate = 100025000003\<rparr>,
       BodyEnds (Copied 5000000 Second) 101100000000 Inserted 101100000001]"
      "(initial [], [])" 40 101100000000 Inserted "initial []"]
  by (simp add: initial_def status_handler_def checkConnectivity_def
     measureDownloadSpeedAsync_def Since_def Sub_def Let_def
     measurementCooldown_def Second_def maxDuration_def minDuration_def goroutine_def
     deferred_release_def measurement_body_def updateLastSpeed_def Seconds_exact int64_def)

end
